theory Spec2Isabelle
  imports Main
begin

section \<open>The frame record\<close>

text \<open>
  Both generators build each frame as a dictionary with the same seven keys, written in
  the same order. The keys are fixed, so a frame is a record; the order of the keys,
  which matters only when the dictionary is written out, is kept by \<open>frame_dict\<close> below.
  Python's integers are unbounded: they are \<open>int\<close>.
\<close>

record frame =
  source_file :: string
  chunk_id :: int
  window_start :: int
  token_sequence :: "int list"
  target_token :: int
  feature_vector :: "int list"
  context_hash :: int

section \<open>The encoders\<close>

text \<open>
  \<^verbatim>\<open>src/pipeline/1_DATA_MINER/scripts/generate_hello_world.py\<close>, lines 4 to 13
  (the raw-mode generator):
  \<^verbatim>\<open>
  def create_frame(source, chunk, start, tokens, target, slots):
      return {
          "source_file": source,
          "chunk_id": chunk,
          "window_start": start,
          "token_sequence": tokens,
          "target_token": target,
          "feature_vector": slots,
          "context_hash": 0
      }
  \<close>
  The two files give their function the same name; the suffix says which file it is from.
\<close>

definition create_frame_raw ::
  "string \<Rightarrow> int \<Rightarrow> int \<Rightarrow> int list \<Rightarrow> int \<Rightarrow> int list \<Rightarrow> frame" where
  "create_frame_raw source chunk start tokens target slots =
     \<lparr> source_file = source,
       chunk_id = chunk,
       window_start = start,
       token_sequence = tokens,
       target_token = target,
       feature_vector = slots,
       context_hash = 0 \<rparr>"

text \<open>
  \<^verbatim>\<open>src/scripts/generate_hello_world.py\<close>, lines 4 to 15 (the remapped-mode generator):
  \<^verbatim>\<open>
  def create_frame(source, chunk, start, tokens, target, slots):
      # Map target token to vocab size 1000
      vocab_target = target % 1000
      return { ..., "target_token": vocab_target, ... }
  \<close>
  Python's \<open>%\<close> on integers takes the sign of the divisor, as \<open>mod\<close> on \<open>int\<close> does.
\<close>

definition create_frame_remapped ::
  "string \<Rightarrow> int \<Rightarrow> int \<Rightarrow> int list \<Rightarrow> int \<Rightarrow> int list \<Rightarrow> frame" where
  "create_frame_remapped source chunk start tokens target slots =
     (let vocab_target = target mod 1000 in
      \<lparr> source_file = source,
        chunk_id = chunk,
        window_start = start,
        token_sequence = tokens,
        target_token = vocab_target,
        feature_vector = slots,
        context_hash = 0 \<rparr>)"

section \<open>The frame lists\<close>

text \<open>
  \<open>xs.append(x)\<close> puts \<open>x\<close> at the end of the list; \<open>xs * n\<close> repeats the list
  \<open>n\<close> times, and gives the empty list when \<open>n\<close> is zero or negative.
\<close>

definition list_append :: "'a list \<Rightarrow> 'a \<Rightarrow> 'a list" where
  "list_append xs x = xs @ [x]"

definition list_mul :: "'a list \<Rightarrow> int \<Rightarrow> 'a list" where
  "list_mul xs n = concat (replicate (nat n) xs)"

text \<open>
  \<^verbatim>\<open>src/pipeline/1_DATA_MINER/scripts/generate_hello_world.py\<close>, lines 29 to 45: the
  module starts from the empty list and appends ten frames, one statement each. The
  model threads the list through the same ten statements.
\<close>

definition frames_raw :: "frame list" where
  "frames_raw =
     (let frames = [];
          frames = list_append frames (create_frame_raw ''demo.txt'' 1 0 [9906] 1917 (list_mul [0] 12));
          frames = list_append frames (create_frame_raw ''demo.txt'' 2 0 [1917] 0 (list_mul [0] 12));
          frames = list_append frames (create_frame_raw ''demo.txt'' 3 0 [14957] 0 (list_mul [0] 12));
          frames = list_append frames (create_frame_raw ''demo.txt'' 4 0 [6504, 261] 1917 (list_mul [0] 12));
          frames = list_append frames (create_frame_raw ''demo.txt'' 5 0 [8460, 261] 1917 (list_mul [0] 12));
          frames = list_append frames (create_frame_raw ''demo.txt'' 6 0 [3923] 374 (list_mul [0] 12));
          frames = list_append frames (create_frame_raw ''demo.txt'' 7 0 [374] 701 (list_mul [0] 12));
          frames = list_append frames (create_frame_raw ''demo.txt'' 8 0 [701] 836 (list_mul [0] 12));
          frames = list_append frames (create_frame_raw ''demo.txt'' 9 0 [836] 30 (list_mul [0] 12));
          frames = list_append frames (create_frame_raw ''demo.txt'' 10 0 [59175] 701 (list_mul [0] 12))
      in frames)"

text \<open>
  \<^verbatim>\<open>src/scripts/generate_hello_world.py\<close>, lines 26 to 40: five appended frames, with
  the feature slots written out as hexadecimal and decimal literals.
\<close>

definition frames_remapped :: "frame list" where
  "frames_remapped =
     (let frames = [];
          frames = list_append frames (create_frame_remapped ''demo.txt'' 1 0 [906] 917
            [0x11111111, 0x22222222, 0x33333333, 0x44444444, 0x00000001, 0, 0, 0, 0, 0, 0x1000, 0]);
          frames = list_append frames (create_frame_remapped ''demo.txt'' 1 0 [906, 917] 0
            [0x11111111, 0x22222222, 0x33333333, 0x44444444, 0x00000002, 0, 0, 0, 0, 0, 0x1000, 1]);
          frames = list_append frames (create_frame_remapped ''demo.txt'' 2 0 [923, 374] 701
            [0xAAAAAAAA, 0xBBBBBBBB, 0xCCCCCCCC, 0xDDDDDDDD, 0x00000001, 0, 0, 0, 0, 1, 0x1000, 0]);
          frames = list_append frames (create_frame_remapped ''demo.txt'' 2 0 [923, 374, 701] 836
            [0xAAAAAAAA, 0xBBBBBBBB, 0xCCCCCCCC, 0xDDDDDDDD, 0x00000002, 0, 0, 0, 0, 1, 0x1000, 1]);
          frames = list_append frames (create_frame_remapped ''demo.txt'' 2 0 [923, 374, 701, 836] 30
            [0xAAAAAAAA, 0xBBBBBBBB, 0xCCCCCCCC, 0xDDDDDDDD, 0x00000003, 0, 0, 0, 0, 1, 0x1000, 2])
      in frames)"

section \<open>The pattern catalogs\<close>

text \<open>
  A catalog entry is the six arguments of one \<open>create_frame\<close> call: source, chunk,
  window start, token sequence, target and feature slots. The catalog of a generator is
  the list of its calls' arguments, in statement order. \<open>frames_raw_catalog\<close> and
  \<open>frames_remapped_catalog\<close> below show that the frame lists are the catalogs encoded
  entry by entry.
\<close>

type_synonym entry = "string \<times> int \<times> int \<times> int list \<times> int \<times> int list"

definition entry_tokens :: "entry \<Rightarrow> int list" where
  "entry_tokens e = (case e of (source, chunk, start, tokens, target, slots) \<Rightarrow> tokens)"

definition encode_raw :: "entry \<Rightarrow> frame" where
  "encode_raw e =
     (case e of (source, chunk, start, tokens, target, slots) \<Rightarrow>
        create_frame_raw source chunk start tokens target slots)"

definition encode_remapped :: "entry \<Rightarrow> frame" where
  "encode_remapped e =
     (case e of (source, chunk, start, tokens, target, slots) \<Rightarrow>
        create_frame_remapped source chunk start tokens target slots)"

definition catalog_raw :: "entry list" where
  "catalog_raw =
     [(''demo.txt'', 1, 0, [9906], 1917, list_mul [0] 12),
      (''demo.txt'', 2, 0, [1917], 0, list_mul [0] 12),
      (''demo.txt'', 3, 0, [14957], 0, list_mul [0] 12),
      (''demo.txt'', 4, 0, [6504, 261], 1917, list_mul [0] 12),
      (''demo.txt'', 5, 0, [8460, 261], 1917, list_mul [0] 12),
      (''demo.txt'', 6, 0, [3923], 374, list_mul [0] 12),
      (''demo.txt'', 7, 0, [374], 701, list_mul [0] 12),
      (''demo.txt'', 8, 0, [701], 836, list_mul [0] 12),
      (''demo.txt'', 9, 0, [836], 30, list_mul [0] 12),
      (''demo.txt'', 10, 0, [59175], 701, list_mul [0] 12)]"

definition catalog_remapped :: "entry list" where
  "catalog_remapped =
     [(''demo.txt'', 1, 0, [906], 917,
         [0x11111111, 0x22222222, 0x33333333, 0x44444444, 0x00000001, 0, 0, 0, 0, 0, 0x1000, 0]),
      (''demo.txt'', 1, 0, [906, 917], 0,
         [0x11111111, 0x22222222, 0x33333333, 0x44444444, 0x00000002, 0, 0, 0, 0, 0, 0x1000, 1]),
      (''demo.txt'', 2, 0, [923, 374], 701,
         [0xAAAAAAAA, 0xBBBBBBBB, 0xCCCCCCCC, 0xDDDDDDDD, 0x00000001, 0, 0, 0, 0, 1, 0x1000, 0]),
      (''demo.txt'', 2, 0, [923, 374, 701], 836,
         [0xAAAAAAAA, 0xBBBBBBBB, 0xCCCCCCCC, 0xDDDDDDDD, 0x00000002, 0, 0, 0, 0, 1, 0x1000, 1]),
      (''demo.txt'', 2, 0, [923, 374, 701, 836], 30,
         [0xAAAAAAAA, 0xBBBBBBBB, 0xCCCCCCCC, 0xDDDDDDDD, 0x00000003, 0, 0, 0, 0, 1, 0x1000, 2])]"

section \<open>Writing the frames out\<close>

text \<open>
  Both modules end with
  \<^verbatim>\<open>
  out_dir = os.path.expanduser("~/.local/share/hasher/data/frames")
  os.makedirs(out_dir, exist_ok=True)
  out_path = os.path.join(out_dir, "training_frames.json")
  with open(out_path, "w") as f:
      json.dump(frames, f, indent=2)
  print(f"Generated {len(frames)} ... demo frames in {out_path}")
  \<close>
  The value handed to \<open>json.dump\<close> is a list of dictionaries whose values are strings,
  integers and lists of integers. \<open>json_value\<close> has exactly these shapes; a dictionary is
  an association list, in insertion order, because that is the order \<open>json.dump\<close> writes.
\<close>

datatype json_value =
    JInt int
  | JStr string
  | JList "json_value list"
  | JDict "(string \<times> json_value) list"

definition frame_dict :: "frame \<Rightarrow> json_value" where
  "frame_dict f =
     JDict [(''source_file'', JStr (source_file f)),
            (''chunk_id'', JInt (chunk_id f)),
            (''window_start'', JInt (window_start f)),
            (''token_sequence'', JList (map JInt (token_sequence f))),
            (''target_token'', JInt (target_token f)),
            (''feature_vector'', JList (map JInt (feature_vector f))),
            (''context_hash'', JInt (context_hash f))]"

definition frames_value :: "frame list \<Rightarrow> json_value" where
  "frames_value fs = JList (map frame_dict fs)"

subsection \<open>The encoder of the json module, with indent 2\<close>

text \<open>
  \<open>json.dump\<close> belongs to Python's standard library. With \<open>indent=2\<close> it writes an
  integer in decimal, a string between double quotes with everything outside the printable
  ASCII range escaped, and a non-empty list or dictionary with one item per line, two more
  spaces of indentation per nesting level, \<open>,\<close> between items and \<open>: \<close> after a key.
  An empty list is \<open>[]\<close> and an empty dictionary \<open>{}\<close>; nothing follows the closing
  bracket. A character here is a code point below 256, and \<open>digit_char\<close> is the digit
  of a value below 16, in lower case as the escapes of the form u00xx have it.
\<close>

definition digit_char :: "nat \<Rightarrow> char" where
  "digit_char d = ''0123456789abcdef'' ! d"

fun nat_repr :: "nat \<Rightarrow> string" where
  "nat_repr n =
     (if n < 10 then [digit_char n]
      else nat_repr (n div 10) @ [digit_char (n mod 10)])"

declare nat_repr.simps [simp del]

definition int_repr :: "int \<Rightarrow> string" where
  "int_repr i = (if i < 0 then CHR ''-'' # nat_repr (nat (- i)) else nat_repr (nat i))"

definition escape_char :: "char \<Rightarrow> string" where
  "escape_char c =
     (if c = CHR 0x5C then [CHR 0x5C, CHR 0x5C]
      else if c = CHR 0x22 then [CHR 0x5C, CHR 0x22]
      else if c = CHR 0x08 then [CHR 0x5C, CHR ''b'']
      else if c = CHR 0x0C then [CHR 0x5C, CHR ''f'']
      else if c = CHR 0x0A then [CHR 0x5C, CHR ''n'']
      else if c = CHR 0x0D then [CHR 0x5C, CHR ''r'']
      else if c = CHR 0x09 then [CHR 0x5C, CHR ''t'']
      else if (of_char c :: nat) < 0x20 \<or> 0x7E < (of_char c :: nat)
        then [CHR 0x5C, CHR ''u'', CHR ''0'', CHR ''0'',
              digit_char (of_char c div 16), digit_char (of_char c mod 16)]
      else [c])"

definition quoted :: "string \<Rightarrow> string" where
  "quoted s = [CHR 0x22] @ s @ [CHR 0x22]"

definition encode_basestring_ascii :: "string \<Rightarrow> string" where
  "encode_basestring_ascii s = quoted (concat (map escape_char s))"

fun str_join :: "string \<Rightarrow> string list \<Rightarrow> string" where
  "str_join sep [] = []"
| "str_join sep [x] = x"
| "str_join sep (x # y # ys) = x @ sep @ str_join sep (y # ys)"

definition newline_indent :: "nat \<Rightarrow> string" where
  "newline_indent level = CHR 0x0A # replicate (2 * level) CHR '' ''"

fun iterencode :: "nat \<Rightarrow> json_value \<Rightarrow> string" where
  "iterencode level (JInt i) = int_repr i"
| "iterencode level (JStr s) = encode_basestring_ascii s"
| "iterencode level (JList xs) =
     (if xs = [] then ''[]''
      else ''['' @ newline_indent (Suc level)
           @ str_join ('','' @ newline_indent (Suc level)) (map (iterencode (Suc level)) xs)
           @ newline_indent level @ '']'')"
| "iterencode level (JDict kvs) =
     (if kvs = [] then ''{}''
      else ''{'' @ newline_indent (Suc level)
           @ str_join ('','' @ newline_indent (Suc level))
               (map (\<lambda>(k, v). encode_basestring_ascii k @ '': '' @ iterencode (Suc level) v) kvs)
           @ newline_indent level @ ''}'')"

definition json_dumps_indent2 :: "json_value \<Rightarrow> string" where
  "json_dumps_indent2 v = iterencode 0 v"

definition serialized_raw :: string where
  "serialized_raw = json_dumps_indent2 (frames_value frames_raw)"

definition serialized_remapped :: string where
  "serialized_remapped = json_dumps_indent2 (frames_value frames_remapped)"

subsection \<open>The file system and the console\<close>

text \<open>
  What the operating system answers is not in the source, so it is part of the state a
  run starts from: where \<open>~\<close> expands to, whether the directory chain can be made,
  whether the file can be opened for writing. \<open>files\<close> maps a path to the content of
  the file there and \<open>stdout\<close> is the text printed so far. A refused call raises
  \<open>OSError\<close>, which nothing catches: the run ends there, with nothing written or printed.
  The directories that \<open>os.makedirs\<close> creates are not tracked.
\<close>

datatype error = OSError string

record world =
  expanduser :: "string \<Rightarrow> string"
  makedirs_ok :: "string \<Rightarrow> bool"
  open_ok :: "string \<Rightarrow> bool"
  files :: "string \<rightharpoonup> string"
  stdout :: string

text \<open>\<open>os.path.join\<close> of two components, on POSIX.\<close>

definition path_join :: "string \<Rightarrow> string \<Rightarrow> string" where
  "path_join a b =
     (if b \<noteq> [] \<and> hd b = CHR ''/'' then b
      else if a = [] \<or> last a = CHR ''/'' then a @ b
      else a @ ''/'' @ b)"

definition frames_path :: "world \<Rightarrow> string" where
  "frames_path w =
     path_join (expanduser w ''~/.local/share/hasher/data/frames'') ''training_frames.json''"

definition write_file :: "string \<Rightarrow> string \<Rightarrow> world \<Rightarrow> world" where
  "write_file path text w = w\<lparr>files := (files w)(path \<mapsto> text)\<rparr>"

definition print_line :: "string \<Rightarrow> world \<Rightarrow> world" where
  "print_line text w = w\<lparr>stdout := stdout w @ text @ [CHR 0x0A]\<rparr>"

text \<open>
  \<^verbatim>\<open>src/pipeline/1_DATA_MINER/scripts/generate_hello_world.py\<close>, lines 47 to 53.
\<close>

definition run_raw :: "world \<Rightarrow> error + world" where
  "run_raw w =
     (let out_dir = expanduser w ''~/.local/share/hasher/data/frames'' in
      if \<not> makedirs_ok w out_dir then Inl (OSError out_dir)
      else
        let out_path = path_join out_dir ''training_frames.json'' in
        if \<not> open_ok w out_path then Inl (OSError out_path)
        else
          let w = write_file out_path (json_dumps_indent2 (frames_value frames_raw)) w in
          Inr (print_line
                 (''Generated '' @ int_repr (int (length frames_raw))
                    @ '' robust demo frames in '' @ out_path) w))"

text \<open>\<^verbatim>\<open>src/scripts/generate_hello_world.py\<close>, lines 42 to 48.\<close>

definition run_remapped :: "world \<Rightarrow> error + world" where
  "run_remapped w =
     (let out_dir = expanduser w ''~/.local/share/hasher/data/frames'' in
      if \<not> makedirs_ok w out_dir then Inl (OSError out_dir)
      else
        let out_path = path_join out_dir ''training_frames.json'' in
        if \<not> open_ok w out_path then Inl (OSError out_path)
        else
          let w = write_file out_path (json_dumps_indent2 (frames_value frames_remapped)) w in
          Inr (print_line
                 (''Generated '' @ int_repr (int (length frames_remapped))
                    @ '' demo frames in '' @ out_path) w))"

section \<open>Reading the text back\<close>

text \<open>
  Whether a text is a JSON array, and of which elements, is decided by reading it.
  \<open>json_read\<close> is a reader for the JSON grammar: insignificant whitespace (space, tab, line
  feed, carriage return), arrays, objects, strings and numbers. It is restricted to what the
  generators can write: a number must be an integer without leading zeros, a string must
  have no escape sequence, and the literals \<open>true\<close>, \<open>false\<close> and \<open>null\<close> are not read. A
  text outside this fragment is refused; a text that is read is a JSON text, and the value
  is the one it denotes. Nothing may follow the value but whitespace.

  \<open>read_after n c cs\<close> reads the value that starts with the character \<open>c\<close> and goes on in
  \<open>cs\<close>, and returns it with the text that follows it. The number \<open>n\<close> bounds the length of
  the text still to be read and only makes the recursion structural: every call passes a
  shorter text, so the length of the whole text is always enough.
\<close>

definition is_ws :: "char \<Rightarrow> bool" where
  "is_ws c \<longleftrightarrow> c = CHR '' '' \<or> c = CHR 0x09 \<or> c = CHR 0x0A \<or> c = CHR 0x0D"

definition skip_ws :: "string \<Rightarrow> string" where
  "skip_ws s = dropWhile is_ws s"

definition is_digit :: "char \<Rightarrow> bool" where
  "is_digit c \<longleftrightarrow> c \<in> set ''0123456789''"

definition digit_value :: "char \<Rightarrow> nat" where
  "digit_value c = of_char c - 48"

definition digits_value :: "string \<Rightarrow> nat" where
  "digits_value ds = foldl (\<lambda>acc d. 10 * acc + digit_value d) 0 ds"

definition read_int :: "string \<Rightarrow> (int \<times> string) option" where
  "read_int s =
     (let negative = (s \<noteq> [] \<and> hd s = CHR ''-'');
          t = (if negative then tl s else s);
          ds = takeWhile is_digit t;
          r = dropWhile is_digit t
      in if ds = [] then None
         else if hd ds = CHR ''0'' \<and> tl ds \<noteq> [] then None
         else if r \<noteq> [] \<and> hd r \<in> set ''.eE'' then None
         else Some (if negative then - int (digits_value ds) else int (digits_value ds), r))"

definition is_plain :: "char \<Rightarrow> bool" where
  "is_plain c \<longleftrightarrow> (0x20::nat) \<le> of_char c \<and> c \<noteq> CHR 0x22 \<and> c \<noteq> CHR 0x5C"

definition read_string :: "string \<Rightarrow> (string \<times> string) option" where
  "read_string s =
     (case dropWhile is_plain s of
        [] \<Rightarrow> None
      | c # r \<Rightarrow> if c = CHR 0x22 then Some (takeWhile is_plain s, r) else None)"

fun read_after :: "nat \<Rightarrow> char \<Rightarrow> string \<Rightarrow> (json_value \<times> string) option"
and read_elements :: "nat \<Rightarrow> string \<Rightarrow> (json_value list \<times> string) option"
and read_members :: "nat \<Rightarrow> string \<Rightarrow> ((string \<times> json_value) list \<times> string) option"
where
  "read_after n c cs =
     (if c = CHR ''['' then
        (case skip_ws cs of
           [] \<Rightarrow> None
         | d # ds \<Rightarrow>
             if d = CHR '']'' then Some (JList [], ds)
             else (case read_elements n (d # ds) of
                     None \<Rightarrow> None
                   | Some (vs, r) \<Rightarrow> Some (JList vs, r)))
      else if c = CHR ''{'' then
        (case skip_ws cs of
           [] \<Rightarrow> None
         | d # ds \<Rightarrow>
             if d = CHR ''}'' then Some (JDict [], ds)
             else (case read_members n (d # ds) of
                     None \<Rightarrow> None
                   | Some (kvs, r) \<Rightarrow> Some (JDict kvs, r)))
      else if c = CHR 0x22 then
        (case read_string cs of None \<Rightarrow> None | Some (t, r) \<Rightarrow> Some (JStr t, r))
      else
        (case read_int (c # cs) of None \<Rightarrow> None | Some (i, r) \<Rightarrow> Some (JInt i, r)))"
| "read_elements 0 s = None"
| "read_elements (Suc n) [] = None"
| "read_elements (Suc n) (c # cs) =
     (case read_after n c cs of
        None \<Rightarrow> None
      | Some (v, r) \<Rightarrow>
          (case skip_ws r of
             [] \<Rightarrow> None
           | d # ds \<Rightarrow>
               if d = CHR '','' then
                 (case read_elements n (skip_ws ds) of
                    None \<Rightarrow> None
                  | Some (vs, r') \<Rightarrow> Some (v # vs, r'))
               else if d = CHR '']'' then Some ([v], ds)
               else None))"
| "read_members 0 s = None"
| "read_members (Suc n) [] = None"
| "read_members (Suc n) (c # cs) =
     (if c \<noteq> CHR 0x22 then None
      else
        (case read_string cs of
           None \<Rightarrow> None
         | Some (k, r) \<Rightarrow>
             (case skip_ws r of
                [] \<Rightarrow> None
              | d # ds \<Rightarrow>
                  if d \<noteq> CHR '':'' then None
                  else
                    (case skip_ws ds of
                       [] \<Rightarrow> None
                     | e # es \<Rightarrow>
                         (case read_after n e es of
                            None \<Rightarrow> None
                          | Some (v, r2) \<Rightarrow>
                              (case skip_ws r2 of
                                 [] \<Rightarrow> None
                               | f # fs \<Rightarrow>
                                   if f = CHR '','' then
                                     (case read_members n (skip_ws fs) of
                                        None \<Rightarrow> None
                                      | Some (kvs, r3) \<Rightarrow> Some ((k, v) # kvs, r3))
                                   else if f = CHR ''}'' then Some ([(k, v)], fs)
                                   else None))))))"

definition json_read :: "string \<Rightarrow> json_value option" where
  "json_read s =
     (case skip_ws s of
        [] \<Rightarrow> None
      | c # cs \<Rightarrow>
          (case read_after (length cs) c cs of
             None \<Rightarrow> None
           | Some (v, r) \<Rightarrow> if skip_ws r = [] then Some v else None))"

definition read_array :: "string \<Rightarrow> json_value list option" where
  "read_array s = (case json_read s of Some (JList xs) \<Rightarrow> Some xs | _ \<Rightarrow> None)"

subsection \<open>Notions for the proofs about the reader\<close>

text \<open>
  \<open>delim r\<close>: the text \<open>r\<close> can follow a value that the encoder wrote (nothing, a comma or a
  line break). \<open>printable s\<close>: the encoder writes the string \<open>s\<close> as it is, without an escape.
  \<open>renders t v\<close>: the text \<open>t\<close> is read as the value \<open>v\<close>, whatever delimiter follows.
\<close>

definition delim :: "string \<Rightarrow> bool" where
  "delim r \<longleftrightarrow> (case r of [] \<Rightarrow> True | c # _ \<Rightarrow> c = CHR '','' \<or> c = CHR 0x0A)"

definition printable :: "string \<Rightarrow> bool" where
  "printable s \<longleftrightarrow> list_all (\<lambda>c. is_plain c \<and> of_char c \<le> (0x7E::nat)) s"

definition renders :: "string \<Rightarrow> json_value \<Rightarrow> bool" where
  "renders t v \<longleftrightarrow>
     t \<noteq> [] \<and> \<not> is_ws (hd t) \<and> hd t \<noteq> CHR '']'' \<and> hd t \<noteq> CHR ''}'' \<and>
     (\<forall>n r. delim r \<longrightarrow> length (tl t @ r) \<le> n \<longrightarrow>
        read_after n (hd t) (tl t @ r) = Some (v, r))"

fun printable_value :: "json_value \<Rightarrow> bool" where
  "printable_value (JInt i) = True"
| "printable_value (JStr s) = printable s"
| "printable_value (JList xs) = list_all printable_value xs"
| "printable_value (JDict kvs) = list_all (\<lambda>kv. printable (fst kv) \<and> printable_value (snd kv)) kvs"

subsection \<open>Two states to run from\<close>

text \<open>
  A fresh account with nothing on disk, and another account where the frames file already
  exists and something was printed before.
\<close>

definition demo_world :: world where
  "demo_world =
     \<lparr> expanduser = (\<lambda>p. ''/home/demo'' @ tl p),
       makedirs_ok = (\<lambda>d. True),
       open_ok = (\<lambda>p. True),
       files = Map.empty,
       stdout = [] \<rparr>"

definition other_world :: world where
  "other_world =
     \<lparr> expanduser = (\<lambda>p. ''/root'' @ tl p),
       makedirs_ok = (\<lambda>d. True),
       open_ok = (\<lambda>p. True),
       files = [''/root/.local/share/hasher/data/frames/training_frames.json'' \<mapsto> ''[]''],
       stdout = ''earlier output'' \<rparr>"

section \<open>The frame lists are the encoded catalogs\<close>

lemma list_mul_zero_12: "list_mul [0::int] 12 = [0, 0, 0, 0, 0, 0, 0, 0, 0, 0, 0, 0]"
  by (simp add: list_mul_def eval_nat_numeral)

lemma frames_raw_catalog: "frames_raw = map encode_raw catalog_raw"
  by (simp add: frames_raw_def catalog_raw_def encode_raw_def list_append_def)

lemma frames_remapped_catalog: "frames_remapped = map encode_remapped catalog_remapped"
  by (simp add: frames_remapped_def catalog_remapped_def encode_remapped_def list_append_def)

section \<open>Properties of the encoders\<close>

text \<open>
  Claim C1. In remapped mode the frame's target token is the target modulo 1000, for every
  non-negative target, and so lies between 0 and 999; the target 1917 gives 917 and the
  target 0 gives 0.
\<close>

theorem remapped_target_token_mod:
  assumes "0 \<le> target"
  shows "target_token (create_frame_remapped source chunk start tokens target slots) = target mod 1000
       \<and> 0 \<le> target_token (create_frame_remapped source chunk start tokens target slots)
       \<and> target_token (create_frame_remapped source chunk start tokens target slots) \<le> 999
       \<and> target_token (create_frame_remapped source chunk start tokens 1917 slots) = 917
       \<and> target_token (create_frame_remapped source chunk start tokens 0 slots) = 0"
proof -
  have m: "target_token (create_frame_remapped source chunk start tokens t slots) = t mod 1000" for t
    by (simp add: create_frame_remapped_def)
  have lo: "0 \<le> target mod 1000"
    by simp
  have "target mod 1000 < 1000"
    by simp
  then have hi: "target mod 1000 \<le> 999"
    by linarith
  show ?thesis
    using lo hi by (simp add: m)
qed

theorem remapped_target_token_mod_witness:
  "(0::int) \<le> 1917
   \<and> target_token (create_frame_remapped ''demo.txt'' 1 0 [906, 917] 1917 []) = 917"
  using remapped_target_token_mod [of 1917 "''demo.txt''" 1 0 "[906, 917]" "[]"]
  by simp

text \<open>
  Claim C2. In raw mode the frame's target token is the target itself, for every
  non-negative target, and the token sequence and the feature vector are the sequences
  that were passed in.
\<close>

theorem raw_frame_copies_inputs:
  assumes "0 \<le> target"
  shows "target_token (create_frame_raw source chunk start tokens target slots) = target
       \<and> token_sequence (create_frame_raw source chunk start tokens target slots) = tokens
       \<and> feature_vector (create_frame_raw source chunk start tokens target slots) = slots"
  by (simp add: create_frame_raw_def)

theorem raw_frame_copies_inputs_witness:
  "(0::int) \<le> 1917
   \<and> target_token (create_frame_raw ''demo.txt'' 1 0 [9906] 1917 (list_mul [0] 12)) = 1917
   \<and> token_sequence (create_frame_raw ''demo.txt'' 1 0 [9906] 1917 (list_mul [0] 12)) = [9906]
   \<and> feature_vector (create_frame_raw ''demo.txt'' 1 0 [9906] 1917 (list_mul [0] 12))
       = [0, 0, 0, 0, 0, 0, 0, 0, 0, 0, 0, 0]"
proof -
  have h: "(0::int) \<le> 1917" by simp
  show ?thesis
    using h raw_frame_copies_inputs [OF h, of "''demo.txt''" 1 0 "[9906]" "list_mul [0] 12"]
    by (simp add: list_mul_zero_12)
qed

text \<open>
  Claim C5. Whatever the arguments, the frame built by either \<open>create_frame\<close> has
  context hash 0.
\<close>

theorem context_hash_always_zero:
  "context_hash (create_frame_raw source chunk start tokens target slots) = 0
   \<and> context_hash (create_frame_remapped source chunk start tokens target slots) = 0"
  by (simp add: create_frame_raw_def create_frame_remapped_def)

section \<open>Properties of the emitted frames\<close>

lemma feature_vector_encode_raw:
  "feature_vector (encode_raw (source, chunk, start, tokens, target, slots)) = slots"
  by (simp add: encode_raw_def create_frame_raw_def)

lemma feature_vector_encode_remapped:
  "feature_vector (encode_remapped (source, chunk, start, tokens, target, slots)) = slots"
  by (simp add: encode_remapped_def create_frame_remapped_def)

lemma catalog_raw_slots: "\<forall>e \<in> set catalog_raw. length (feature_vector (encode_raw e)) = 12"
  by (simp add: catalog_raw_def feature_vector_encode_raw list_mul_zero_12)

lemma catalog_remapped_slots:
  "\<forall>e \<in> set catalog_remapped. length (feature_vector (encode_remapped e)) = 12"
  by (simp add: catalog_remapped_def feature_vector_encode_remapped)

text \<open>
  Claim C4. Every catalog entry of either generator is encoded into a frame whose feature
  vector has exactly 12 slots; so has every frame of the two frame lists.
\<close>

theorem feature_vector_length_12:
  "(\<forall>e \<in> set catalog_raw. length (feature_vector (encode_raw e)) = 12)
   \<and> (\<forall>e \<in> set catalog_remapped. length (feature_vector (encode_remapped e)) = 12)
   \<and> (\<forall>f \<in> set frames_raw \<union> set frames_remapped. length (feature_vector f) = 12)"
proof -
  have "\<forall>f \<in> set frames_raw. length (feature_vector f) = 12"
    using catalog_raw_slots by (simp add: frames_raw_catalog)
  moreover have "\<forall>f \<in> set frames_remapped. length (feature_vector f) = 12"
    using catalog_remapped_slots by (simp add: frames_remapped_catalog)
  ultimately show ?thesis
    using catalog_raw_slots catalog_remapped_slots by blast
qed


theorem feature_vector_length_12_witness:
  "(''demo.txt'', 1, 0, [9906], 1917, list_mul [0] 12) \<in> set catalog_raw
   \<and> length (feature_vector (encode_raw (''demo.txt'', 1, 0, [9906], 1917, list_mul [0] 12))) = 12
   \<and> (''demo.txt'', 2, 0, [923, 374, 701, 836], 30,
        [0xAAAAAAAA, 0xBBBBBBBB, 0xCCCCCCCC, 0xDDDDDDDD, 0x00000003, 0, 0, 0, 0, 1, 0x1000, 2])
       \<in> set catalog_remapped
   \<and> length (feature_vector (encode_remapped (''demo.txt'', 2, 0, [923, 374, 701, 836], 30,
        [0xAAAAAAAA, 0xBBBBBBBB, 0xCCCCCCCC, 0xDDDDDDDD, 0x00000003, 0, 0, 0, 0, 1, 0x1000, 2]))) = 12
   \<and> create_frame_remapped ''demo.txt'' 1 0 [906] 917
        [0x11111111, 0x22222222, 0x33333333, 0x44444444, 0x00000001, 0, 0, 0, 0, 0, 0x1000, 0]
       \<in> set frames_raw \<union> set frames_remapped
   \<and> length (feature_vector (create_frame_remapped ''demo.txt'' 1 0 [906] 917
        [0x11111111, 0x22222222, 0x33333333, 0x44444444, 0x00000001, 0, 0, 0, 0, 0, 0x1000, 0])) = 12"
proof -
  have a: "(''demo.txt'', 1, 0, [9906], 1917, list_mul [0] 12) \<in> set catalog_raw"
    by (simp add: catalog_raw_def)
  have b: "(''demo.txt'', 2, 0, [923, 374, 701, 836], 30,
        [0xAAAAAAAA, 0xBBBBBBBB, 0xCCCCCCCC, 0xDDDDDDDD, 0x00000003, 0, 0, 0, 0, 1, 0x1000, 2])
       \<in> set catalog_remapped"
    by (simp add: catalog_remapped_def)
  have c: "create_frame_remapped ''demo.txt'' 1 0 [906] 917
        [0x11111111, 0x22222222, 0x33333333, 0x44444444, 0x00000001, 0, 0, 0, 0, 0, 0x1000, 0]
       \<in> set frames_raw \<union> set frames_remapped"
    by (simp add: frames_remapped_def list_append_def)
  show ?thesis
    using a b c feature_vector_length_12 by blast
qed

lemma encode_raw_fields:
  "source_file (encode_raw (source, chunk, start, tokens, target, slots)) = source"
  "chunk_id (encode_raw (source, chunk, start, tokens, target, slots)) = chunk"
  "window_start (encode_raw (source, chunk, start, tokens, target, slots)) = start"
  "token_sequence (encode_raw (source, chunk, start, tokens, target, slots)) = tokens"
  by (simp_all add: encode_raw_def create_frame_raw_def)

lemma encode_remapped_fields:
  "source_file (encode_remapped (source, chunk, start, tokens, target, slots)) = source"
  "chunk_id (encode_remapped (source, chunk, start, tokens, target, slots)) = chunk"
  "window_start (encode_remapped (source, chunk, start, tokens, target, slots)) = start"
  "token_sequence (encode_remapped (source, chunk, start, tokens, target, slots)) = tokens"
  by (simp_all add: encode_remapped_def create_frame_remapped_def)

lemma frames_raw_ok:
  "\<forall>f \<in> set frames_raw.
     source_file f \<noteq> [] \<and> 1 \<le> chunk_id f \<and> 0 \<le> window_start f \<and> token_sequence f \<noteq> []"
  by (simp add: frames_raw_catalog catalog_raw_def encode_raw_fields)

lemma frames_remapped_ok:
  "\<forall>f \<in> set frames_remapped.
     source_file f \<noteq> [] \<and> 1 \<le> chunk_id f \<and> 0 \<le> window_start f \<and> token_sequence f \<noteq> []"
  by (simp add: frames_remapped_catalog catalog_remapped_def encode_remapped_fields)

text \<open>
  Claim C6. Every frame that either generator emits has a non-empty source file, a chunk
  identifier of at least 1, a window start of at least 0 and a non-empty token sequence.
\<close>

theorem emitted_frames_field_invariants:
  "\<forall>f \<in> set frames_raw \<union> set frames_remapped.
     source_file f \<noteq> [] \<and> 1 \<le> chunk_id f \<and> 0 \<le> window_start f \<and> token_sequence f \<noteq> []"
  using frames_raw_ok frames_remapped_ok by blast

theorem emitted_frames_field_invariants_witness:
  "create_frame_raw ''demo.txt'' 10 0 [59175] 701 (list_mul [0] 12)
     \<in> set frames_raw \<union> set frames_remapped
   \<and> source_file (create_frame_raw ''demo.txt'' 10 0 [59175] 701 (list_mul [0] 12)) \<noteq> []
   \<and> 1 \<le> chunk_id (create_frame_raw ''demo.txt'' 10 0 [59175] 701 (list_mul [0] 12))
   \<and> 0 \<le> window_start (create_frame_raw ''demo.txt'' 10 0 [59175] 701 (list_mul [0] 12))
   \<and> token_sequence (create_frame_raw ''demo.txt'' 10 0 [59175] 701 (list_mul [0] 12)) \<noteq> []"
proof -
  have m: "create_frame_raw ''demo.txt'' 10 0 [59175] 701 (list_mul [0] 12)
             \<in> set frames_raw \<union> set frames_remapped"
    by (simp add: frames_raw_def list_append_def)
  show ?thesis
    using m emitted_frames_field_invariants by blast
qed

lemma raw_token_lengths: "length ` entry_tokens ` set catalog_raw = {1, 2}"
  by (auto simp add: catalog_raw_def entry_tokens_def)

lemma remapped_token_lengths: "length ` entry_tokens ` set catalog_remapped = {1, 2, 3, 4}"
  by (auto simp add: catalog_remapped_def entry_tokens_def)

lemma raw_tokens_kept: "map token_sequence frames_raw = map entry_tokens catalog_raw"
  by (simp add: frames_raw_catalog catalog_raw_def encode_raw_fields entry_tokens_def)

lemma remapped_tokens_kept:
  "map token_sequence frames_remapped = map entry_tokens catalog_remapped"
  by (simp add: frames_remapped_catalog catalog_remapped_def encode_remapped_fields entry_tokens_def)

text \<open>
  Claim C7. The token sequences of the catalog entries have the lengths 1, 2, 3 and 4, each
  of which occurs (all four in the remapped catalog; the raw catalog has lengths 1 and 2
  only), and both encoders return the token sequence exactly as it was supplied, whatever
  its length: every frame carries the token sequence of its catalog entry.
\<close>

theorem token_sequences_of_every_length_preserved:
  "length ` entry_tokens ` (set catalog_raw \<union> set catalog_remapped) = {1, 2, 3, 4}
   \<and> length ` entry_tokens ` set catalog_remapped = {1, 2, 3, 4}
   \<and> length ` entry_tokens ` set catalog_raw = {1, 2}
   \<and> token_sequence (create_frame_raw source chunk start tokens target slots) = tokens
   \<and> token_sequence (create_frame_remapped source chunk start tokens target slots) = tokens
   \<and> map token_sequence frames_raw = map entry_tokens catalog_raw
   \<and> map token_sequence frames_remapped = map entry_tokens catalog_remapped"
proof -
  have "length ` entry_tokens ` (set catalog_raw \<union> set catalog_remapped)
          = length ` entry_tokens ` set catalog_raw \<union> length ` entry_tokens ` set catalog_remapped"
    by (simp add: image_Un)
  also have "\<dots> = {1, 2, 3, 4}"
    unfolding raw_token_lengths remapped_token_lengths by auto
  finally have u: "length ` entry_tokens ` (set catalog_raw \<union> set catalog_remapped) = {1, 2, 3, 4}" .
  have r: "token_sequence (create_frame_raw source chunk start tokens target slots) = tokens"
    by (simp add: create_frame_raw_def)
  have m: "token_sequence (create_frame_remapped source chunk start tokens target slots) = tokens"
    by (simp add: create_frame_remapped_def)
  show ?thesis
    using u r m raw_token_lengths remapped_token_lengths raw_tokens_kept remapped_tokens_kept
    by simp
qed


lemma frames_raw_first:
  "frames_raw ! 0 = create_frame_raw ''demo.txt'' 1 0 [9906] 1917 (list_mul [0] 12)"
  by (simp add: frames_raw_def list_append_def)

lemma catalog_raw_first:
  "catalog_raw ! 0 = (''demo.txt'', 1, 0, [9906], 1917, [0, 0, 0, 0, 0, 0, 0, 0, 0, 0, 0, 0])"
  by (simp add: catalog_raw_def list_mul_zero_12)

text \<open>
  Claim C8. The first entry of the raw catalog has the token sequence \<open>[9906]\<close>, the
  target 1917 and twelve zero slots. Its frame, which is the first frame emitted, has
  source file \<open>demo.txt\<close>, chunk 1, window start 0, token sequence \<open>[9906]\<close>, target
  token 1917, twelve zero features and context hash 0, and its dictionary lists these
  seven keys in this order.
\<close>

theorem raw_end_to_end_scenario:
  "catalog_raw ! 0 = (''demo.txt'', 1, 0, [9906], 1917, [0, 0, 0, 0, 0, 0, 0, 0, 0, 0, 0, 0])
   \<and> frames_raw ! 0 = encode_raw (catalog_raw ! 0)
   \<and> encode_raw (catalog_raw ! 0) =
       \<lparr> source_file = ''demo.txt'', chunk_id = 1, window_start = 0, token_sequence = [9906],
         target_token = 1917, feature_vector = [0, 0, 0, 0, 0, 0, 0, 0, 0, 0, 0, 0],
         context_hash = 0 \<rparr>
   \<and> frame_dict (encode_raw (catalog_raw ! 0)) =
       JDict [(''source_file'', JStr ''demo.txt''),
              (''chunk_id'', JInt 1),
              (''window_start'', JInt 0),
              (''token_sequence'', JList [JInt 9906]),
              (''target_token'', JInt 1917),
              (''feature_vector'', JList [JInt 0, JInt 0, JInt 0, JInt 0, JInt 0, JInt 0,
                                         JInt 0, JInt 0, JInt 0, JInt 0, JInt 0, JInt 0]),
              (''context_hash'', JInt 0)]"
proof -
  have e: "encode_raw (catalog_raw ! 0) =
       \<lparr> source_file = ''demo.txt'', chunk_id = 1, window_start = 0, token_sequence = [9906],
         target_token = 1917, feature_vector = [0, 0, 0, 0, 0, 0, 0, 0, 0, 0, 0, 0],
         context_hash = 0 \<rparr>"
    by (simp add: catalog_raw_first encode_raw_def create_frame_raw_def)
  have f: "frames_raw ! 0 = encode_raw (catalog_raw ! 0)"
    by (simp add: frames_raw_first catalog_raw_def encode_raw_def)
  have d: "frame_dict (encode_raw (catalog_raw ! 0)) =
       JDict [(''source_file'', JStr ''demo.txt''),
              (''chunk_id'', JInt 1),
              (''window_start'', JInt 0),
              (''token_sequence'', JList [JInt 9906]),
              (''target_token'', JInt 1917),
              (''feature_vector'', JList [JInt 0, JInt 0, JInt 0, JInt 0, JInt 0, JInt 0,
                                         JInt 0, JInt 0, JInt 0, JInt 0, JInt 0, JInt 0]),
              (''context_hash'', JInt 0)]"
    by (simp add: e frame_dict_def)
  from catalog_raw_first f e d show ?thesis
    by (intro conjI)
qed

lemma remapped_catalog_tokens_small:
  "\<forall>e \<in> set catalog_remapped. \<forall>t \<in> set (entry_tokens e). 0 \<le> t \<and> t \<le> 999"
  by (simp add: catalog_remapped_def entry_tokens_def)

text \<open>
  Claim C10. Every token in the token sequence of every frame of the remapped generator
  lies between 0 and 999, although the encoder reduces only the target: it returns the
  token sequence as supplied, so \<open>[9906]\<close> would stay \<open>[9906]\<close>.
\<close>

theorem remapped_context_tokens_in_vocab:
  "(\<forall>f \<in> set frames_remapped. \<forall>t \<in> set (token_sequence f). 0 \<le> t \<and> t \<le> 999)
   \<and> token_sequence (create_frame_remapped source chunk start tokens target slots) = tokens
   \<and> token_sequence (create_frame_remapped source chunk start [9906] target slots) = [9906]"
proof -
  have "set (map token_sequence frames_remapped) = set (map entry_tokens catalog_remapped)"
    by (simp only: remapped_tokens_kept)
  then have "token_sequence ` set frames_remapped = entry_tokens ` set catalog_remapped"
    by simp
  then have "\<forall>f \<in> set frames_remapped. \<exists>e \<in> set catalog_remapped. token_sequence f = entry_tokens e"
    by blast
  then have "\<forall>f \<in> set frames_remapped. \<forall>t \<in> set (token_sequence f). 0 \<le> t \<and> t \<le> 999"
    using remapped_catalog_tokens_small by metis
  then show ?thesis
    by (simp add: create_frame_remapped_def)
qed

theorem remapped_context_tokens_in_vocab_witness:
  "create_frame_remapped ''demo.txt'' 2 0 [923, 374, 701] 836
     [0xAAAAAAAA, 0xBBBBBBBB, 0xCCCCCCCC, 0xDDDDDDDD, 0x00000002, 0, 0, 0, 0, 1, 0x1000, 1]
     \<in> set frames_remapped
   \<and> (923::int) \<in> set (token_sequence (create_frame_remapped ''demo.txt'' 2 0 [923, 374, 701] 836
     [0xAAAAAAAA, 0xBBBBBBBB, 0xCCCCCCCC, 0xDDDDDDDD, 0x00000002, 0, 0, 0, 0, 1, 0x1000, 1]))
   \<and> (0::int) \<le> 923 \<and> (923::int) \<le> 999"
proof -
  have m: "create_frame_remapped ''demo.txt'' 2 0 [923, 374, 701] 836
     [0xAAAAAAAA, 0xBBBBBBBB, 0xCCCCCCCC, 0xDDDDDDDD, 0x00000002, 0, 0, 0, 0, 1, 0x1000, 1]
     \<in> set frames_remapped"
    by (simp add: frames_remapped_def list_append_def)
  have t: "(923::int) \<in> set (token_sequence (create_frame_remapped ''demo.txt'' 2 0 [923, 374, 701] 836
     [0xAAAAAAAA, 0xBBBBBBBB, 0xCCCCCCCC, 0xDDDDDDDD, 0x00000002, 0, 0, 0, 0, 1, 0x1000, 1]))"
    by (simp add: create_frame_remapped_def)
  show ?thesis
    using m t remapped_context_tokens_in_vocab [of "[]" 0 0 "[]" 0 "[]"] by blast
qed

section \<open>The text of a frame\<close>

text \<open>
  The encoder run on the first raw frame, one line of the file per list element: the frame
  is the second nesting level of the document, so its keys are indented by four spaces.
\<close>

lemma newline_indent_levels:
  "newline_indent 0 = [CHR 0x0A]"
  "newline_indent (Suc 0) = CHR 0x0A # ''  ''"
  "newline_indent (Suc (Suc 0)) = CHR 0x0A # ''    ''"
  "newline_indent (Suc (Suc (Suc 0))) = CHR 0x0A # ''      ''"
  by (simp_all add: newline_indent_def eval_nat_numeral)

lemma int_repr_values:
  "int_repr 0 = ''0''"
  "int_repr 1 = ''1''"
  "int_repr 9906 = ''9906''"
  "int_repr 1917 = ''1917''"
  "int_repr (- 20) = ''-20''"
  by (simp_all add: int_repr_def nat_repr.simps digit_char_def)

lemma key_texts:
  "encode_basestring_ascii ''source_file'' = quoted ''source_file''"
  "encode_basestring_ascii ''chunk_id'' = quoted ''chunk_id''"
  "encode_basestring_ascii ''window_start'' = quoted ''window_start''"
  "encode_basestring_ascii ''token_sequence'' = quoted ''token_sequence''"
  "encode_basestring_ascii ''target_token'' = quoted ''target_token''"
  "encode_basestring_ascii ''feature_vector'' = quoted ''feature_vector''"
  "encode_basestring_ascii ''context_hash'' = quoted ''context_hash''"
  "encode_basestring_ascii ''demo.txt'' = quoted ''demo.txt''"
  by (simp_all add: encode_basestring_ascii_def escape_char_def)

lemma escaped_text:
  "encode_basestring_ascii [CHR 0x22, CHR 0x5C, CHR 0x0A, CHR 0x01, CHR 0x7F, CHR 0xE9] =
     quoted ([CHR 0x5C, CHR 0x22] @ [CHR 0x5C, CHR 0x5C] @ [CHR 0x5C, CHR ''n'']
             @ (CHR 0x5C # ''u0001'') @ (CHR 0x5C # ''u007f'') @ (CHR 0x5C # ''u00e9''))"
  by (simp add: encode_basestring_ascii_def escape_char_def digit_char_def)

lemma first_raw_frame_text:
  "iterencode 1 (frame_dict (create_frame_raw ''demo.txt'' 1 0 [9906] 1917 (list_mul [0] 12))) =
     str_join [CHR 0x0A]
      [''{'',
       ''    '' @ quoted ''source_file'' @ '': '' @ quoted ''demo.txt'' @ '','',
       ''    '' @ quoted ''chunk_id'' @ '': 1,'',
       ''    '' @ quoted ''window_start'' @ '': 0,'',
       ''    '' @ quoted ''token_sequence'' @ '': ['',
       ''      9906'',
       ''    ],'',
       ''    '' @ quoted ''target_token'' @ '': 1917,'',
       ''    '' @ quoted ''feature_vector'' @ '': ['',
       ''      0,'',
       ''      0,'',
       ''      0,'',
       ''      0,'',
       ''      0,'',
       ''      0,'',
       ''      0,'',
       ''      0,'',
       ''      0,'',
       ''      0,'',
       ''      0,'',
       ''      0'',
       ''    ],'',
       ''    '' @ quoted ''context_hash'' @ '': 0'',
       ''  }'']"
  by (simp add: frame_dict_def create_frame_raw_def list_mul_zero_12 int_repr_values key_texts
        newline_indent_levels)

section \<open>Running a generator\<close>

lemma length_frames_raw: "length frames_raw = 10"
  by (simp add: frames_raw_catalog catalog_raw_def)

lemma length_frames_remapped: "length frames_remapped = 5"
  by (simp add: frames_remapped_catalog catalog_remapped_def)

lemma int_repr_10: "int_repr 10 = ''10''"
  by (simp add: int_repr_def nat_repr.simps digit_char_def)

lemma int_repr_5: "int_repr 5 = ''5''"
  by (simp add: int_repr_def nat_repr.simps digit_char_def)

lemma run_raw_Inr:
  assumes "run_raw w = Inr w'"
  shows "w' = print_line (''Generated 10 robust demo frames in '' @ frames_path w)
                (write_file (frames_path w) serialized_raw w)"
  using assms
  by (simp add: run_raw_def frames_path_def serialized_raw_def Let_def length_frames_raw int_repr_10
           split: if_splits)

lemma run_remapped_Inr:
  assumes "run_remapped w = Inr w'"
  shows "w' = print_line (''Generated 5 demo frames in '' @ frames_path w)
                (write_file (frames_path w) serialized_remapped w)"
  using assms
  by (simp add: run_remapped_def frames_path_def serialized_remapped_def Let_def
           length_frames_remapped int_repr_5 split: if_splits)

lemma files_after_write:
  "files (print_line text (write_file path content w)) = (files w)(path \<mapsto> content)"
  by (simp add: print_line_def write_file_def)

lemma run_raw_writes: "run_raw w = Inr w' \<Longrightarrow> files w' (frames_path w) = Some serialized_raw"
  by (drule run_raw_Inr) (simp add: files_after_write)

lemma run_remapped_writes:
  "run_remapped w = Inr w' \<Longrightarrow> files w' (frames_path w) = Some serialized_remapped"
  by (drule run_remapped_Inr) (simp add: files_after_write)

lemma answers_after_run:
  "expanduser (print_line text (write_file path content w)) = expanduser w"
  "makedirs_ok (print_line text (write_file path content w)) = makedirs_ok w"
  "open_ok (print_line text (write_file path content w)) = open_ok w"
  by (simp_all add: print_line_def write_file_def)

lemma run_raw_again:
  assumes "run_raw w = Inr w'"
  shows "\<exists>w''. run_raw w' = Inr w'' \<and> frames_path w' = frames_path w \<and> files w'' = files w'"
proof -
  have ok: "makedirs_ok w (expanduser w ''~/.local/share/hasher/data/frames'')"
           "open_ok w (frames_path w)"
    using assms by (auto simp add: run_raw_def frames_path_def Let_def split: if_splits)
  have w': "w' = print_line (''Generated 10 robust demo frames in '' @ frames_path w)
                (write_file (frames_path w) serialized_raw w)"
    using assms by (rule run_raw_Inr)
  have p: "frames_path w' = frames_path w"
    by (simp add: w' frames_path_def answers_after_run)
  have "\<exists>w''. run_raw w' = Inr w''"
    using ok by (simp add: w' run_raw_def frames_path_def Let_def answers_after_run)
  then obtain w'' where r: "run_raw w' = Inr w''" ..
  have "files w'' = (files w')(frames_path w' \<mapsto> serialized_raw)"
    using run_raw_Inr [OF r] by (simp add: files_after_write)
  also have "\<dots> = files w'"
    using run_raw_writes [OF assms] by (simp add: p fun_upd_idem)
  finally show ?thesis
    using r p by blast
qed

lemma run_remapped_again:
  assumes "run_remapped w = Inr w'"
  shows "\<exists>w''. run_remapped w' = Inr w'' \<and> frames_path w' = frames_path w \<and> files w'' = files w'"
proof -
  have ok: "makedirs_ok w (expanduser w ''~/.local/share/hasher/data/frames'')"
           "open_ok w (frames_path w)"
    using assms by (auto simp add: run_remapped_def frames_path_def Let_def split: if_splits)
  have w': "w' = print_line (''Generated 5 demo frames in '' @ frames_path w)
                (write_file (frames_path w) serialized_remapped w)"
    using assms by (rule run_remapped_Inr)
  have p: "frames_path w' = frames_path w"
    by (simp add: w' frames_path_def answers_after_run)
  have "\<exists>w''. run_remapped w' = Inr w''"
    using ok by (simp add: w' run_remapped_def frames_path_def Let_def answers_after_run)
  then obtain w'' where r: "run_remapped w' = Inr w''" ..
  have "files w'' = (files w')(frames_path w' \<mapsto> serialized_remapped)"
    using run_remapped_Inr [OF r] by (simp add: files_after_write)
  also have "\<dots> = files w'"
    using run_remapped_writes [OF assms] by (simp add: p fun_upd_idem)
  finally show ?thesis
    using r p by blast
qed

text \<open>
  Claim C9. A generator writes the same text whatever state it is run from. The text is
  the serialization of its frame list, which mentions no state. Two runs that succeed,
  from any two states, leave the same content in the frames file; and a run that succeeds
  can be repeated at once: the second run succeeds, writes to the same path and leaves
  every file as the first run left it.
\<close>

theorem generation_deterministic:
  "serialized_raw = json_dumps_indent2 (frames_value frames_raw)
   \<and> serialized_remapped = json_dumps_indent2 (frames_value frames_remapped)
   \<and> (run_raw w = Inr w' \<longrightarrow> run_raw v = Inr v' \<longrightarrow>
        files w' (frames_path w) = Some serialized_raw
        \<and> files v' (frames_path v) = files w' (frames_path w))
   \<and> (run_raw w = Inr w' \<longrightarrow>
        (\<exists>w''. run_raw w' = Inr w'' \<and> frames_path w' = frames_path w \<and> files w'' = files w'))
   \<and> (run_remapped w = Inr w' \<longrightarrow> run_remapped v = Inr v' \<longrightarrow>
        files w' (frames_path w) = Some serialized_remapped
        \<and> files v' (frames_path v) = files w' (frames_path w))
   \<and> (run_remapped w = Inr w' \<longrightarrow>
        (\<exists>w''. run_remapped w' = Inr w'' \<and> frames_path w' = frames_path w \<and> files w'' = files w'))"
  using run_raw_writes [of w w'] run_raw_writes [of v v'] run_raw_again [of w w']
        run_remapped_writes [of w w'] run_remapped_writes [of v v'] run_remapped_again [of w w']
  by (simp add: serialized_raw_def serialized_remapped_def)


lemma frames_path_demo_world:
  "frames_path demo_world = ''/home/demo/.local/share/hasher/data/frames/training_frames.json''"
  by (simp add: frames_path_def demo_world_def path_join_def)

lemma frames_path_other_world:
  "frames_path other_world = ''/root/.local/share/hasher/data/frames/training_frames.json''"
  by (simp add: frames_path_def other_world_def path_join_def)

theorem generation_deterministic_witness:
  "run_raw demo_world = Inr
       (print_line ''Generated 10 robust demo frames in /home/demo/.local/share/hasher/data/frames/training_frames.json''
          (write_file ''/home/demo/.local/share/hasher/data/frames/training_frames.json'' serialized_raw demo_world))
   \<and> run_raw other_world = Inr
       (print_line ''Generated 10 robust demo frames in /root/.local/share/hasher/data/frames/training_frames.json''
          (write_file ''/root/.local/share/hasher/data/frames/training_frames.json'' serialized_raw other_world))
   \<and> files
       (print_line ''Generated 10 robust demo frames in /home/demo/.local/share/hasher/data/frames/training_frames.json''
          (write_file ''/home/demo/.local/share/hasher/data/frames/training_frames.json'' serialized_raw demo_world))
       (frames_path demo_world) = Some serialized_raw
   \<and> files
       (print_line ''Generated 10 robust demo frames in /root/.local/share/hasher/data/frames/training_frames.json''
          (write_file ''/root/.local/share/hasher/data/frames/training_frames.json'' serialized_raw other_world))
       (frames_path other_world) = Some serialized_raw
   \<and> run_remapped demo_world = Inr
       (print_line ''Generated 5 demo frames in /home/demo/.local/share/hasher/data/frames/training_frames.json''
          (write_file ''/home/demo/.local/share/hasher/data/frames/training_frames.json'' serialized_remapped demo_world))
   \<and> run_remapped other_world = Inr
       (print_line ''Generated 5 demo frames in /root/.local/share/hasher/data/frames/training_frames.json''
          (write_file ''/root/.local/share/hasher/data/frames/training_frames.json'' serialized_remapped other_world))
   \<and> files
       (print_line ''Generated 5 demo frames in /home/demo/.local/share/hasher/data/frames/training_frames.json''
          (write_file ''/home/demo/.local/share/hasher/data/frames/training_frames.json'' serialized_remapped demo_world))
       (frames_path demo_world) = Some serialized_remapped
   \<and> files
       (print_line ''Generated 5 demo frames in /root/.local/share/hasher/data/frames/training_frames.json''
          (write_file ''/root/.local/share/hasher/data/frames/training_frames.json'' serialized_remapped other_world))
       (frames_path other_world) = Some serialized_remapped"
proof -
  have a: "run_raw demo_world = Inr
       (print_line ''Generated 10 robust demo frames in /home/demo/.local/share/hasher/data/frames/training_frames.json''
          (write_file ''/home/demo/.local/share/hasher/data/frames/training_frames.json'' serialized_raw demo_world))"
    by (simp add: run_raw_def demo_world_def path_join_def Let_def length_frames_raw int_repr_10
          serialized_raw_def)
  have b: "run_raw other_world = Inr
       (print_line ''Generated 10 robust demo frames in /root/.local/share/hasher/data/frames/training_frames.json''
          (write_file ''/root/.local/share/hasher/data/frames/training_frames.json'' serialized_raw other_world))"
    by (simp add: run_raw_def other_world_def path_join_def Let_def length_frames_raw int_repr_10
          serialized_raw_def)
  have c: "run_remapped demo_world = Inr
       (print_line ''Generated 5 demo frames in /home/demo/.local/share/hasher/data/frames/training_frames.json''
          (write_file ''/home/demo/.local/share/hasher/data/frames/training_frames.json'' serialized_remapped demo_world))"
    by (simp add: run_remapped_def demo_world_def path_join_def Let_def length_frames_remapped
          int_repr_5 serialized_remapped_def)
  have d: "run_remapped other_world = Inr
       (print_line ''Generated 5 demo frames in /root/.local/share/hasher/data/frames/training_frames.json''
          (write_file ''/root/.local/share/hasher/data/frames/training_frames.json'' serialized_remapped other_world))"
    by (simp add: run_remapped_def other_world_def path_join_def Let_def length_frames_remapped
          int_repr_5 serialized_remapped_def)
  have r: "files
       (print_line ''Generated 10 robust demo frames in /home/demo/.local/share/hasher/data/frames/training_frames.json''
          (write_file ''/home/demo/.local/share/hasher/data/frames/training_frames.json'' serialized_raw demo_world))
       (frames_path demo_world) = Some serialized_raw
     \<and> files
       (print_line ''Generated 10 robust demo frames in /root/.local/share/hasher/data/frames/training_frames.json''
          (write_file ''/root/.local/share/hasher/data/frames/training_frames.json'' serialized_raw other_world))
       (frames_path other_world) = Some serialized_raw"
    using a b generation_deterministic
            [of demo_world
       "(print_line ''Generated 10 robust demo frames in /home/demo/.local/share/hasher/data/frames/training_frames.json''
          (write_file ''/home/demo/.local/share/hasher/data/frames/training_frames.json'' serialized_raw demo_world))"
                other_world
       "(print_line ''Generated 10 robust demo frames in /root/.local/share/hasher/data/frames/training_frames.json''
          (write_file ''/root/.local/share/hasher/data/frames/training_frames.json'' serialized_raw other_world))"]
    by simp
  have m: "files
       (print_line ''Generated 5 demo frames in /home/demo/.local/share/hasher/data/frames/training_frames.json''
          (write_file ''/home/demo/.local/share/hasher/data/frames/training_frames.json'' serialized_remapped demo_world))
       (frames_path demo_world) = Some serialized_remapped
     \<and> files
       (print_line ''Generated 5 demo frames in /root/.local/share/hasher/data/frames/training_frames.json''
          (write_file ''/root/.local/share/hasher/data/frames/training_frames.json'' serialized_remapped other_world))
       (frames_path other_world) = Some serialized_remapped"
    using c d generation_deterministic
            [of demo_world
       "(print_line ''Generated 5 demo frames in /home/demo/.local/share/hasher/data/frames/training_frames.json''
          (write_file ''/home/demo/.local/share/hasher/data/frames/training_frames.json'' serialized_remapped demo_world))"
                other_world
       "(print_line ''Generated 5 demo frames in /root/.local/share/hasher/data/frames/training_frames.json''
          (write_file ''/root/.local/share/hasher/data/frames/training_frames.json'' serialized_remapped other_world))"]
    by simp
  from a b c d r m show ?thesis
    by simp
qed

section \<open>The reader reads what the encoder writes\<close>

lemma skip_ws_newline_indent: "skip_ws (newline_indent level @ s) = skip_ws s"
  by (simp add: skip_ws_def newline_indent_def is_ws_def dropWhile_append)

lemma skip_ws_Cons: "\<not> is_ws c \<Longrightarrow> skip_ws (c # s) = c # s"
  by (simp add: skip_ws_def)

lemma skip_ws_space: "skip_ws (CHR '' '' # s) = skip_ws s"
  by (simp add: skip_ws_def is_ws_def)

lemma delim_newline_indent: "delim (newline_indent level @ s)"
  by (simp add: delim_def newline_indent_def)

lemma delim_comma: "delim (CHR '','' # s)"
  by (simp add: delim_def)

lemma delim_Nil: "delim []"
  by (simp add: delim_def)

lemma digit_cases: "d < 10 \<Longrightarrow> d \<in> {0, 1, 2, 3, 4, 5, 6, 7, 8, 9::nat}"
  by auto

lemma digit_char_is_digit: "d < 10 \<Longrightarrow> is_digit (digit_char d)"
  by (drule digit_cases) (auto simp add: is_digit_def digit_char_def)

lemma digit_value_digit_char: "d < 10 \<Longrightarrow> digit_value (digit_char d) = d"
  by (drule digit_cases) (auto simp add: digit_value_def digit_char_def)

lemma digit_char_zero: "d < 10 \<Longrightarrow> digit_char d = CHR ''0'' \<Longrightarrow> d = 0"
  by (drule digit_cases) (auto simp add: digit_char_def)

lemma nat_repr_not_Nil: "nat_repr n \<noteq> []"
  by (subst nat_repr.simps) simp

lemma nat_repr_digits: "list_all is_digit (nat_repr n)"
proof (induction n rule: nat_repr.induct)
  case (1 n)
  show ?case
  proof (cases "n < 10")
    case True
    then show ?thesis
      by (subst nat_repr.simps) (simp add: digit_char_is_digit)
  next
    case False
    with "1" have "list_all is_digit (nat_repr (n div 10))" by simp
    with False show ?thesis
      by (subst nat_repr.simps) (simp add: digit_char_is_digit)
  qed
qed

lemma digits_value_snoc: "digits_value (ds @ [d]) = 10 * digits_value ds + digit_value d"
  by (simp add: digits_value_def)

lemma digits_value_nat_repr: "digits_value (nat_repr n) = n"
proof (induction n rule: nat_repr.induct)
  case (1 n)
  show ?case
  proof (cases "n < 10")
    case True
    then show ?thesis
      by (subst nat_repr.simps) (simp add: digits_value_def digit_value_digit_char)
  next
    case False
    with "1" have "digits_value (nat_repr (n div 10)) = n div 10" by simp
    with False show ?thesis
      by (subst nat_repr.simps) (simp add: digits_value_snoc digit_value_digit_char)
  qed
qed

lemma nat_repr_leading_zero: "hd (nat_repr n) = CHR ''0'' \<Longrightarrow> n = 0"
proof (induction n rule: nat_repr.induct)
  case (1 n)
  show ?case
  proof (cases "n < 10")
    case True
    with "1.prems" show ?thesis
      by (subst (asm) nat_repr.simps) (simp add: digit_char_zero)
  next
    case False
    with "1.prems" have "hd (nat_repr (n div 10)) = CHR ''0''"
      by (subst (asm) nat_repr.simps) (simp add: nat_repr_not_Nil)
    with "1.IH" False have "n div 10 = 0" by simp
    with False show ?thesis by simp
  qed
qed

lemma nat_repr_zero: "nat_repr 0 = ''0''"
  by (simp add: nat_repr.simps digit_char_def)

lemma nat_repr_no_leading_zero: "\<not> (hd (nat_repr n) = CHR ''0'' \<and> tl (nat_repr n) \<noteq> [])"
  using nat_repr_leading_zero [of n] nat_repr_zero by auto

lemma hd_nat_repr_digit: "is_digit (hd (nat_repr n))"
  using nat_repr_digits [of n] nat_repr_not_Nil [of n]
  by (cases "nat_repr n") simp_all

lemma take_digits: "delim r \<Longrightarrow> takeWhile is_digit (nat_repr n @ r) = nat_repr n"
  using nat_repr_digits [of n]
  by (cases r) (auto simp add: takeWhile_append list_all_iff delim_def is_digit_def)

lemma drop_digits: "delim r \<Longrightarrow> dropWhile is_digit (nat_repr n @ r) = r"
  using nat_repr_digits [of n]
  by (cases r) (auto simp add: dropWhile_append list_all_iff delim_def is_digit_def)

lemma delim_not_fraction: "delim r \<Longrightarrow> \<not> (r \<noteq> [] \<and> hd r \<in> set ''.eE'')"
  by (cases r) (auto simp add: delim_def)

lemma read_int_nat_repr:
  assumes "delim r"
  shows "read_int (nat_repr n @ r) = Some (int n, r)"
proof -
  have "hd (nat_repr n @ r) \<noteq> CHR ''-''"
    using hd_nat_repr_digit [of n] nat_repr_not_Nil [of n] by (auto simp add: is_digit_def)
  then show ?thesis
    using assms nat_repr_no_leading_zero [of n] delim_not_fraction [OF assms]
    by (simp add: read_int_def Let_def take_digits drop_digits nat_repr_not_Nil
        digits_value_nat_repr)
qed

lemma read_int_minus_nat_repr:
  assumes "delim r"
  shows "read_int (CHR ''-'' # nat_repr n @ r) = Some (- int n, r)"
  using assms nat_repr_no_leading_zero [of n] delim_not_fraction [OF assms]
  by (simp add: read_int_def Let_def take_digits drop_digits nat_repr_not_Nil
      digits_value_nat_repr)

lemma read_int_int_repr: "delim r \<Longrightarrow> read_int (int_repr i @ r) = Some (i, r)"
  by (simp add: int_repr_def read_int_nat_repr read_int_minus_nat_repr)

lemma int_repr_not_Nil: "int_repr i \<noteq> []"
  by (simp add: int_repr_def nat_repr_not_Nil)

lemma hd_int_repr: "hd (int_repr i) = CHR ''-'' \<or> is_digit (hd (int_repr i))"
  by (simp add: int_repr_def hd_nat_repr_digit)

lemma escape_char_plain: "is_plain c \<Longrightarrow> of_char c \<le> (0x7E::nat) \<Longrightarrow> escape_char c = [c]"
  by (auto simp add: escape_char_def is_plain_def)

lemma escape_printable: "printable s \<Longrightarrow> concat (map escape_char s) = s"
  by (induction s) (simp_all add: printable_def escape_char_plain)

lemma encode_printable: "printable s \<Longrightarrow> encode_basestring_ascii s = CHR 0x22 # s @ [CHR 0x22]"
  by (simp add: encode_basestring_ascii_def quoted_def escape_printable)

lemma printable_plain: "printable s \<Longrightarrow> list_all is_plain s"
  by (simp add: printable_def list_all_iff)

lemma read_string_plain:
  "list_all is_plain s \<Longrightarrow> read_string (s @ CHR 0x22 # r) = Some (s, r)"
  by (simp add: read_string_def dropWhile_append takeWhile_append list_all_iff is_plain_def)

lemma rendersD:
  assumes "renders t v" "delim r" "length (t @ r) \<le> Suc n"
  obtains c cs where "t = c # cs" "\<not> is_ws c" "c \<noteq> CHR '']''" "c \<noteq> CHR ''}''"
    "read_after n c (cs @ r) = Some (v, r)"
proof -
  from assms(1) obtain c cs where t: "t = c # cs"
    by (cases t) (auto simp add: renders_def)
  with assms have "\<not> is_ws c" "c \<noteq> CHR '']''" "c \<noteq> CHR ''}''"
    "read_after n c (cs @ r) = Some (v, r)"
    by (auto simp add: renders_def)
  with t show thesis by (rule that)
qed

lemma renders_int: "renders (int_repr i) (JInt i)"
proof -
  obtain c cs where t: "int_repr i = c # cs"
    using int_repr_not_Nil [of i] by (cases "int_repr i") auto
  with hd_int_repr [of i] have c: "c = CHR ''-'' \<or> is_digit c" by simp
  then have n: "\<not> is_ws c" "c \<noteq> CHR '']''" "c \<noteq> CHR ''}''" "c \<noteq> CHR ''[''" "c \<noteq> CHR ''{''"
    "c \<noteq> CHR 0x22"
    by (auto simp add: is_digit_def is_ws_def)
  have "read_after n c (cs @ r) = Some (JInt i, r)" if "delim r" for n r
    using read_int_int_repr [OF that, of i] n by (simp add: t)
  with n show ?thesis
    by (simp add: renders_def t)
qed

lemma renders_string: "printable s \<Longrightarrow> renders (encode_basestring_ascii s) (JStr s)"
  by (simp add: renders_def encode_printable is_ws_def read_string_plain printable_plain)

lemma read_elements_join:
  assumes "list_all2 renders ts vs" "ts \<noteq> []"
    "length (str_join (CHR '','' # newline_indent m) ts @ newline_indent l @ CHR '']'' # r) \<le> n"
  shows "read_elements n (str_join (CHR '','' # newline_indent m) ts @ newline_indent l @ CHR '']'' # r)
           = Some (vs, r)"
  using assms
proof (induction ts arbitrary: vs n)
  case Nil
  then show ?case by simp
next
  case (Cons t ts)
  from Cons.prems(1) obtain v vs' where vs: "vs = v # vs'" "renders t v" "list_all2 renders ts vs'"
    by (auto simp add: list_all2_Cons1)
  show ?case
  proof (cases ts)
    case Nil
    with vs have vs': "vs' = []" by simp
    from Cons.prems(3) Nil obtain k where n: "n = Suc k"
      by (cases n) (simp_all add: newline_indent_def)
    from Cons.prems(3) Nil n
    have len: "length (t @ newline_indent l @ CHR '']'' # r) \<le> Suc k" by simp
    from vs(2) delim_newline_indent len obtain c cs where
      t: "t = c # cs" and r: "read_after k c (cs @ newline_indent l @ CHR '']'' # r)
                               = Some (v, newline_indent l @ CHR '']'' # r)"
      by (rule rendersD)
    have "skip_ws (newline_indent l @ CHR '']'' # r) = CHR '']'' # r"
      by (simp add: skip_ws_newline_indent skip_ws_Cons is_ws_def)
    with r show ?thesis
      by (simp add: Nil n t vs vs')
  next
    case (Cons t' ts')
    let ?rest = "str_join (CHR '','' # newline_indent m) (t' # ts') @ newline_indent l @ CHR '']'' # r"
    from Cons.prems(3) Cons obtain k where n: "n = Suc k"
      by (cases n) simp_all
    from Cons.prems(3) Cons n
    have len: "length (t @ CHR '','' # newline_indent m @ ?rest) \<le> Suc k" by simp
    from vs(2) delim_comma len obtain c cs where
      t: "t = c # cs" and r: "read_after k c (cs @ CHR '','' # newline_indent m @ ?rest)
                               = Some (v, CHR '','' # newline_indent m @ ?rest)"
      by (rule rendersD)
    from vs(3) Cons obtain v' where "renders t' v'"
      by (auto simp add: list_all2_Cons1)
    then obtain c' cs' where t': "t' = c' # cs'" "\<not> is_ws c'"
      by (cases t') (auto simp add: renders_def)
    then obtain rest' where rest': "?rest = c' # rest'"
      by (cases ts') simp_all
    have sk: "skip_ws (newline_indent m @ ?rest) = ?rest"
      unfolding skip_ws_newline_indent rest' using t'(2) by (simp add: skip_ws_Cons)
    from len have "length ?rest \<le> k" by simp
    with Cons.IH [OF vs(3)] Cons have "read_elements k ?rest = Some (vs', r)" by simp
    with r sk show ?thesis
      by (simp add: Cons n t vs skip_ws_Cons is_ws_def)
  qed
qed

lemma renders_list:
  assumes "list_all2 renders ts vs"
  shows "renders (if ts = [] then ''[]''
                  else ''['' @ newline_indent m
                       @ str_join ('','' @ newline_indent m) ts
                       @ newline_indent l @ '']'') (JList vs)"
proof (cases ts)
  case Nil
  with assms have "vs = []" by simp
  with Nil show ?thesis
    by (simp add: renders_def is_ws_def skip_ws_Cons)
next
  case (Cons t ts')
  let ?join = "str_join (CHR '','' # newline_indent m) ts"
  from assms Cons obtain v where "renders t v"
    by (auto simp add: list_all2_Cons1)
  then obtain c cs where t: "t = c # cs" "\<not> is_ws c" "c \<noteq> CHR '']''"
    by (cases t) (auto simp add: renders_def)
  have ne: "ts \<noteq> []" using Cons by simp
  have "read_after n (CHR ''['') (newline_indent m @ ?join @ newline_indent l @ CHR '']'' # r)
          = Some (JList vs, r)"
    if len: "length (newline_indent m @ ?join @ newline_indent l @ CHR '']'' # r) \<le> n" for n r
  proof -
    obtain rest where rest: "?join @ newline_indent l @ CHR '']'' # r = c # rest"
      using Cons t by (cases ts') simp_all
    have sk: "skip_ws (newline_indent m @ ?join @ newline_indent l @ CHR '']'' # r) = c # rest"
      unfolding skip_ws_newline_indent rest using t(2) by (simp add: skip_ws_Cons)
    from len have "length (?join @ newline_indent l @ CHR '']'' # r) \<le> n" by simp
    from read_elements_join [OF assms ne this]
    have "read_elements n (c # rest) = Some (vs, r)" by (simp only: rest)
    with sk t(3) show ?thesis by simp
  qed
  then show ?thesis
    using ne by (simp add: renders_def is_ws_def)
qed

lemma read_members_join:
  assumes "\<forall>(k, v) \<in> set kvs. printable k \<and> renders (g v) v" "kvs \<noteq> []"
    "length (str_join (CHR '','' # newline_indent m)
               (map (\<lambda>(k, v). encode_basestring_ascii k @ '': '' @ g v) kvs)
             @ newline_indent l @ CHR ''}'' # r) \<le> n"
  shows "read_members n
           (str_join (CHR '','' # newline_indent m)
              (map (\<lambda>(k, v). encode_basestring_ascii k @ '': '' @ g v) kvs)
            @ newline_indent l @ CHR ''}'' # r) = Some (kvs, r)"
  using assms
proof (induction kvs arbitrary: n)
  case Nil
  then show ?case by simp
next
  case (Cons kv kvs)
  obtain k v where kv: "kv = (k, v)" by (cases kv)
  from Cons.prems(1) kv have k: "printable k" and v: "renders (g v) v" by simp_all
  from Cons.prems(1) have all: "\<forall>(k, v) \<in> set kvs. printable k \<and> renders (g v) v" by simp
  from v obtain e es where gv: "g v = e # es" "\<not> is_ws e"
    by (cases "g v") (auto simp add: renders_def)
  show ?case
  proof (cases kvs)
    case Nil
    let ?after = "newline_indent l @ CHR ''}'' # r"
    from Cons.prems(3) Nil kv obtain j where n: "n = Suc j"
      by (cases n) (simp_all add: encode_printable [OF k])
    from Cons.prems(3) Nil kv n have "length (g v @ ?after) \<le> j"
      by (simp add: encode_printable [OF k])
    then have "length (g v @ ?after) \<le> Suc j" by simp
    from v delim_newline_indent this obtain c cs where
      "g v = c # cs" "read_after j c (cs @ ?after) = Some (v, ?after)"
      by (rule rendersD)
    with gv have r: "read_after j e (es @ ?after) = Some (v, ?after)" by simp
    have sk: "skip_ws ?after = CHR ''}'' # r"
      by (simp add: skip_ws_newline_indent skip_ws_Cons is_ws_def)
    show ?thesis
      using r sk gv
      by (simp add: Nil kv n encode_printable [OF k] read_string_plain printable_plain [OF k]
            skip_ws_Cons skip_ws_space is_ws_def)
  next
    case (Cons kv' kvs')
    let ?rest = "str_join (CHR '','' # newline_indent m)
                   (map (\<lambda>(k, v). encode_basestring_ascii k @ '': '' @ g v) (kv' # kvs'))
                 @ newline_indent l @ CHR ''}'' # r"
    let ?after = "CHR '','' # newline_indent m @ ?rest"
    from Cons.prems(3) Cons kv obtain j where n: "n = Suc j"
      by (cases n) (simp_all add: encode_printable [OF k])
    from Cons.prems(3) Cons kv n have len: "length (g v @ ?after) \<le> j"
      by (simp add: encode_printable [OF k])
    then have "length (g v @ ?after) \<le> Suc j" by simp
    from v delim_comma this obtain c cs where
      "g v = c # cs" "read_after j c (cs @ ?after) = Some (v, ?after)"
      by (rule rendersD)
    with gv have r: "read_after j e (es @ ?after) = Some (v, ?after)" by simp
    obtain k' v' where kv': "kv' = (k', v')" by (cases kv')
    from all Cons kv' have k': "printable k'" by simp
    obtain rest' where rest': "?rest = CHR 0x22 # rest'"
      using kv' by (cases kvs') (simp_all add: encode_printable [OF k'])
    have sk: "skip_ws (newline_indent m @ ?rest) = ?rest"
      unfolding skip_ws_newline_indent rest' by (simp add: skip_ws_Cons is_ws_def)
    from len have "length ?rest \<le> j" by simp
    with Cons.IH [OF all] Cons have ih: "read_members j ?rest = Some (kvs, r)" by simp
    show ?thesis
      using r sk gv ih
      by (simp add: Cons kv n encode_printable [OF k] read_string_plain printable_plain [OF k]
            skip_ws_Cons skip_ws_space is_ws_def)
  qed
qed

lemma renders_dict:
  assumes "\<forall>(k, v) \<in> set kvs. printable k \<and> renders (g v) v"
  shows "renders (if kvs = [] then ''{}''
                  else ''{'' @ newline_indent m
                       @ str_join ('','' @ newline_indent m)
                           (map (\<lambda>(k, v). encode_basestring_ascii k @ '': '' @ g v) kvs)
                       @ newline_indent l @ ''}'') (JDict kvs)"
proof (cases kvs)
  case Nil
  then show ?thesis
    by (simp add: renders_def is_ws_def skip_ws_Cons)
next
  case (Cons kv kvs')
  let ?join = "str_join (CHR '','' # newline_indent m)
                 (map (\<lambda>(k, v). encode_basestring_ascii k @ '': '' @ g v) kvs)"
  obtain k v where kv: "kv = (k, v)" by (cases kv)
  from assms Cons kv have k: "printable k" by simp
  have ne: "kvs \<noteq> []" using Cons by simp
  have "read_after n (CHR ''{'') (newline_indent m @ ?join @ newline_indent l @ CHR ''}'' # r)
          = Some (JDict kvs, r)"
    if len: "length (newline_indent m @ ?join @ newline_indent l @ CHR ''}'' # r) \<le> n" for n r
  proof -
    obtain rest where rest: "?join @ newline_indent l @ CHR ''}'' # r = CHR 0x22 # rest"
      using Cons kv by (cases kvs') (simp_all add: encode_printable [OF k])
    have sk: "skip_ws (newline_indent m @ ?join @ newline_indent l @ CHR ''}'' # r)
                = CHR 0x22 # rest"
      unfolding skip_ws_newline_indent rest by (simp add: skip_ws_Cons is_ws_def)
    from len have "length (?join @ newline_indent l @ CHR ''}'' # r) \<le> n" by simp
    from read_members_join [OF assms ne this]
    have "read_members n (CHR 0x22 # rest) = Some (kvs, r)" by (simp only: rest)
    with sk show ?thesis by simp
  qed
  then show ?thesis
    using ne by (simp add: renders_def is_ws_def)
qed

lemma renders_iterencode: "printable_value v \<Longrightarrow> renders (iterencode level v) v"
proof (induction v arbitrary: level)
  case (JInt i)
  show ?case by (simp add: renders_int)
next
  case (JStr s)
  then show ?case by (simp add: renders_string)
next
  case (JList xs)
  have "\<forall>x \<in> set xs. renders (iterencode (Suc level) x) x"
    using JList by (simp add: list_all_iff)
  then have "list_all2 renders (map (iterencode (Suc level)) xs) xs"
    by (simp add: list_all2_map1 list_all2_same)
  from renders_list [OF this, of "Suc level" level] show ?case
    by simp
next
  case (JDict kvs)
  have "\<forall>(k, v) \<in> set kvs. printable k \<and> renders (iterencode (Suc level) v) v"
  proof (clarify)
    fix k v assume m: "(k, v) \<in> set kvs"
    with JDict.prems have p: "printable k" "printable_value v"
      by (auto simp add: list_all_iff)
    from m have "v \<in> Basic_BNFs.snds (k, v)" by simp
    from JDict.IH [OF m this p(2)] p(1)
    show "printable k \<and> renders (iterencode (Suc level) v) v" by simp
  qed
  from renders_dict [OF this, of "Suc level" level] show ?case
    by simp
qed

lemma json_read_json_dumps:
  assumes "printable_value v"
  shows "json_read (json_dumps_indent2 v) = Some v"
proof -
  from renders_iterencode [OF assms, of 0] obtain c cs where
    t: "iterencode 0 v = c # cs" "\<not> is_ws c"
    and r: "\<forall>n r. delim r \<longrightarrow> length (cs @ r) \<le> n \<longrightarrow> read_after n c (cs @ r) = Some (v, r)"
    by (cases "iterencode 0 v") (auto simp add: renders_def)
  from r delim_Nil have "read_after (length cs) c cs = Some (v, [])"
    by fastforce
  with t show ?thesis
    by (simp add: json_read_def json_dumps_indent2_def skip_ws_Cons skip_ws_def)
qed

lemma printable_frame_dict: "printable_value (frame_dict f) \<longleftrightarrow> printable (source_file f)"
  by (simp add: frame_dict_def printable_def is_plain_def list_all_iff)

lemma printable_frames_value:
  "printable_value (frames_value fs) \<longleftrightarrow> (\<forall>f \<in> set fs. printable (source_file f))"
  by (simp add: frames_value_def printable_frame_dict list_all_iff)

lemma printable_demo: "printable ''demo.txt''"
  by (simp add: printable_def is_plain_def)

lemma read_array_json_dumps:
  "\<forall>f \<in> set fs. printable (source_file f) \<Longrightarrow>
   read_array (json_dumps_indent2 (frames_value fs)) = Some (map frame_dict fs)"
  using json_read_json_dumps [of "frames_value fs"]
  by (simp add: printable_frames_value read_array_def) (simp add: frames_value_def)

lemma source_file_encode:
  "source_file (encode_raw e) = fst e" "source_file (encode_remapped e) = fst e"
  by (cases e; simp add: encode_raw_def encode_remapped_def create_frame_raw_def
        create_frame_remapped_def)+

lemma catalog_sources_printable:
  "\<forall>e \<in> set catalog_raw. printable (fst e)" "\<forall>e \<in> set catalog_remapped. printable (fst e)"
  by (simp_all add: catalog_raw_def catalog_remapped_def printable_demo)

lemma read_array_encoded_catalog:
  assumes "\<forall>e \<in> set cat. printable (fst e)"
  shows "read_array (json_dumps_indent2 (frames_value (map encode_raw cat)))
           = Some (map (\<lambda>e. frame_dict (encode_raw e)) cat)"
    and "read_array (json_dumps_indent2 (frames_value (map encode_remapped cat)))
           = Some (map (\<lambda>e. frame_dict (encode_remapped e)) cat)"
  using assms by (simp_all add: read_array_json_dumps source_file_encode comp_def)

lemma length_catalog_raw: "length catalog_raw = 10"
  by (simp add: catalog_raw_def)

lemma length_catalog_remapped: "length catalog_remapped = 5"
  by (simp add: catalog_remapped_def)

lemma read_array_serialized_raw:
  "read_array serialized_raw = Some (map (\<lambda>e. frame_dict (encode_raw e)) catalog_raw)"
  unfolding serialized_raw_def frames_raw_catalog
  by (rule read_array_encoded_catalog(1) [OF catalog_sources_printable(1)])

lemma read_array_serialized_remapped:
  "read_array serialized_remapped
     = Some (map (\<lambda>e. frame_dict (encode_remapped e)) catalog_remapped)"
  unfolding serialized_remapped_def frames_remapped_catalog
  by (rule read_array_encoded_catalog(2) [OF catalog_sources_printable(2)])

text \<open>The reader on small texts: what it reads, and what it refuses.\<close>

lemma json_read_examples:
  "json_read ''[1, -20 ,[ ], {}]'' = Some (JList [JInt 1, JInt (- 20), JList [], JDict []])"
  "json_read (''{'' @ quoted ''a'' @ '': [7]}'') = Some (JDict [(''a'', JList [JInt 7])])"
  "json_read ''[1, 2,]'' = None"
  "json_read ''[1 2]'' = None"
  "json_read ''[1, 02]'' = None"
  "json_read ''[1.5]'' = None"
  "json_read ''[1, 2'' = None"
  "json_read ''[1, 2]]'' = None"
  "json_read [] = None"
  by (simp_all add: json_read_def skip_ws_def is_ws_def read_int_def read_string_def
        is_digit_def is_plain_def digits_value_def digit_value_def quoted_def Let_def)

section \<open>The serialized array\<close>

text \<open>
  Claim C3. The text that a generator writes is a JSON array with one element per catalog
  entry, in catalog order: read back, the text of the raw generator gives the 10
  dictionaries of the frames of its 10 catalog entries, in that order, and the text of the
  remapped generator the 5 dictionaries of its 5 entries. This is the content of the
  frames file after every run that succeeds. It does not depend on the catalog: whatever
  the entries, as long as their source names are written without escapes, the text reads
  back as the array of the entries' frames, as many as there are entries, in their order.
\<close>

theorem serialized_array_follows_catalog:
  "read_array serialized_raw = Some (map (\<lambda>e. frame_dict (encode_raw e)) catalog_raw)
   \<and> map_option length (read_array serialized_raw) = Some 10
   \<and> length catalog_raw = 10
   \<and> read_array serialized_remapped
        = Some (map (\<lambda>e. frame_dict (encode_remapped e)) catalog_remapped)
   \<and> map_option length (read_array serialized_remapped) = Some 5
   \<and> length catalog_remapped = 5
   \<and> (run_raw w = Inr w' \<longrightarrow>
        (\<exists>text. files w' (frames_path w) = Some text
           \<and> read_array text = Some (map (\<lambda>e. frame_dict (encode_raw e)) catalog_raw)))
   \<and> (run_remapped v = Inr v' \<longrightarrow>
        (\<exists>text. files v' (frames_path v) = Some text
           \<and> read_array text = Some (map (\<lambda>e. frame_dict (encode_remapped e)) catalog_remapped)))
   \<and> ((\<forall>e \<in> set cat. printable (fst e)) \<longrightarrow>
        read_array (json_dumps_indent2 (frames_value (map encode_raw cat)))
          = Some (map (\<lambda>e. frame_dict (encode_raw e)) cat)
        \<and> map_option length (read_array (json_dumps_indent2 (frames_value (map encode_raw cat))))
          = Some (length cat)
        \<and> read_array (json_dumps_indent2 (frames_value (map encode_remapped cat)))
          = Some (map (\<lambda>e. frame_dict (encode_remapped e)) cat)
        \<and> map_option length
             (read_array (json_dumps_indent2 (frames_value (map encode_remapped cat))))
          = Some (length cat))"
proof -
  have r10: "map_option length (read_array serialized_raw) = Some 10"
    by (simp add: read_array_serialized_raw length_catalog_raw)
  have m5: "map_option length (read_array serialized_remapped) = Some 5"
    by (simp add: read_array_serialized_remapped length_catalog_remapped)
  have wr: "run_raw w = Inr w' \<longrightarrow>
        (\<exists>text. files w' (frames_path w) = Some text
           \<and> read_array text = Some (map (\<lambda>e. frame_dict (encode_raw e)) catalog_raw))"
    using run_raw_writes [of w w'] read_array_serialized_raw by blast
  have wm: "run_remapped v = Inr v' \<longrightarrow>
        (\<exists>text. files v' (frames_path v) = Some text
           \<and> read_array text = Some (map (\<lambda>e. frame_dict (encode_remapped e)) catalog_remapped))"
    using run_remapped_writes [of v v'] read_array_serialized_remapped by blast
  have g: "(\<forall>e \<in> set cat. printable (fst e)) \<longrightarrow>
        read_array (json_dumps_indent2 (frames_value (map encode_raw cat)))
          = Some (map (\<lambda>e. frame_dict (encode_raw e)) cat)
        \<and> map_option length (read_array (json_dumps_indent2 (frames_value (map encode_raw cat))))
          = Some (length cat)
        \<and> read_array (json_dumps_indent2 (frames_value (map encode_remapped cat)))
          = Some (map (\<lambda>e. frame_dict (encode_remapped e)) cat)
        \<and> map_option length
             (read_array (json_dumps_indent2 (frames_value (map encode_remapped cat))))
          = Some (length cat)"
    by (simp add: read_array_encoded_catalog)
  from read_array_serialized_raw r10 length_catalog_raw read_array_serialized_remapped m5
    length_catalog_remapped wr wm g
  show ?thesis
    by (intro conjI)
qed

theorem serialized_array_follows_catalog_witness:
  "run_raw demo_world = Inr
       (print_line ''Generated 10 robust demo frames in /home/demo/.local/share/hasher/data/frames/training_frames.json''
          (write_file ''/home/demo/.local/share/hasher/data/frames/training_frames.json'' serialized_raw demo_world))
   \<and> (\<exists>text. files
       (print_line ''Generated 10 robust demo frames in /home/demo/.local/share/hasher/data/frames/training_frames.json''
          (write_file ''/home/demo/.local/share/hasher/data/frames/training_frames.json'' serialized_raw demo_world))
       (frames_path demo_world) = Some text
         \<and> read_array text = Some (map (\<lambda>e. frame_dict (encode_raw e)) catalog_raw))
   \<and> run_remapped other_world = Inr
       (print_line ''Generated 5 demo frames in /root/.local/share/hasher/data/frames/training_frames.json''
          (write_file ''/root/.local/share/hasher/data/frames/training_frames.json'' serialized_remapped other_world))
   \<and> (\<exists>text. files
       (print_line ''Generated 5 demo frames in /root/.local/share/hasher/data/frames/training_frames.json''
          (write_file ''/root/.local/share/hasher/data/frames/training_frames.json'' serialized_remapped other_world))
       (frames_path other_world) = Some text
         \<and> read_array text = Some (map (\<lambda>e. frame_dict (encode_remapped e)) catalog_remapped))
   \<and> printable (fst (''notes.txt'', 7, 0, [1, 2], 2000, [5]))
   \<and> read_array (json_dumps_indent2 (frames_value (map encode_remapped [(''notes.txt'', 7, 0, [1, 2], 2000, [5])])))
       = Some [frame_dict (encode_remapped (''notes.txt'', 7, 0, [1, 2], 2000, [5]))]
   \<and> map_option length
        (read_array (json_dumps_indent2 (frames_value (map encode_remapped [(''notes.txt'', 7, 0, [1, 2], 2000, [5])]))))
       = Some 1"
proof -
  have a: "run_raw demo_world = Inr
       (print_line ''Generated 10 robust demo frames in /home/demo/.local/share/hasher/data/frames/training_frames.json''
          (write_file ''/home/demo/.local/share/hasher/data/frames/training_frames.json'' serialized_raw demo_world))"
    by (simp add: run_raw_def demo_world_def path_join_def Let_def length_frames_raw int_repr_10
          serialized_raw_def)
  have c: "run_remapped other_world = Inr
       (print_line ''Generated 5 demo frames in /root/.local/share/hasher/data/frames/training_frames.json''
          (write_file ''/root/.local/share/hasher/data/frames/training_frames.json'' serialized_remapped other_world))"
    by (simp add: run_remapped_def other_world_def path_join_def Let_def length_frames_remapped
          int_repr_5 serialized_remapped_def)
  have p: "printable (fst (''notes.txt'', 7, 0, [1, 2], 2000, [5]))"
    by (simp add: printable_def is_plain_def)
  from a c p serialized_array_follows_catalog
      [of demo_world
       "(print_line ''Generated 10 robust demo frames in /home/demo/.local/share/hasher/data/frames/training_frames.json''
          (write_file ''/home/demo/.local/share/hasher/data/frames/training_frames.json'' serialized_raw demo_world))"
          other_world
       "(print_line ''Generated 5 demo frames in /root/.local/share/hasher/data/frames/training_frames.json''
          (write_file ''/root/.local/share/hasher/data/frames/training_frames.json'' serialized_remapped other_world))"
          "[(''notes.txt'', 7, 0, [1, 2], 2000, [5])]"]
  show ?thesis
    by simp
qed

end
